theory Spec2Isabelle
  imports Main "HOL-Library.AList" "HOL-Library.Sublist"
begin

section \<open>Python values\<close>

text \<open>
  The client of \<^verbatim>\<open>src/pylandax.py\<close> moves untyped JSON between its caller and the
  Landax server. A value of the program is a JSON value as Python's \<^verbatim>\<open>json\<close> module
  reads it: \<^verbatim>\<open>None\<close>, a bool, an int, a string, a list, or a dict with string keys. A
  dict is an association list in insertion order (its keys are distinct in every value
  Python can build). Floating-point numbers are outside the model.
\<close>

datatype json =
    JNull
  | JBool bool
  | JInt int
  | JStr string
  | JList "json list"
  | JObj "(string \<times> json) list"

type_synonym dict = "(string \<times> json) list"

type_synonym bytes = "char list"

text \<open>
  The exceptions the modelled methods can end with. Messages are not modelled.
  \<open>RequestException\<close> stands for every exception the HTTP library raises instead of
  giving a response, \<open>JSONDecodeError\<close> for \<^verbatim>\<open>response.json()\<close> on a body that is not JSON.
\<close>

datatype exn =
    LandaxAuthException
  | LandaxDataException
  | TypeError
  | KeyError
  | AttributeError
  | FileNotFoundError
  | JSONDecodeError
  | RequestException

text \<open>What the program prints and logs.\<close>

datatype event =
    Printed string
  | LogWarning string
  | LogError string

definition keys :: "('k \<times> 'v) list \<Rightarrow> 'k set" where
  "keys d = set (map fst d)"

text \<open>\<^verbatim>\<open>needle in container\<close> for a string needle.\<close>

fun py_in :: "string \<Rightarrow> json \<Rightarrow> exn + bool" where
  "py_in s (JObj kv) = Inr (s \<in> keys kv)"
| "py_in s (JList xs) = Inr (JStr s \<in> set xs)"
| "py_in s (JStr t) = Inr (sublist s t)"
| "py_in s JNull = Inl TypeError"
| "py_in s (JBool b) = Inl TypeError"
| "py_in s (JInt i) = Inl TypeError"

text \<open>\<^verbatim>\<open>container[key]\<close> for a string key: only a dict can be indexed by a string.\<close>

fun py_getitem :: "json \<Rightarrow> string \<Rightarrow> exn + json" where
  "py_getitem (JObj kv) s = (case map_of kv s of None \<Rightarrow> Inl KeyError | Some v \<Rightarrow> Inr v)"
| "py_getitem _ s = Inl TypeError"

text \<open>
  \<^verbatim>\<open>a + b\<close>: lists and strings concatenate, ints add (a bool is the int 0 or 1),
  anything else is a \<^verbatim>\<open>TypeError\<close>.
\<close>

fun py_add :: "json \<Rightarrow> json \<Rightarrow> exn + json" where
  "py_add (JList a) (JList b) = Inr (JList (a @ b))"
| "py_add (JStr a) (JStr b) = Inr (JStr (a @ b))"
| "py_add (JInt a) (JInt b) = Inr (JInt (a + b))"
| "py_add (JInt a) (JBool b) = Inr (JInt (a + of_bool b))"
| "py_add (JBool a) (JInt b) = Inr (JInt (of_bool a + b))"
| "py_add (JBool a) (JBool b) = Inr (JInt (of_bool a + of_bool b))"
| "py_add _ _ = Inl TypeError"

text \<open>\<^verbatim>\<open>str(n)\<close> for an int, in decimal.\<close>

definition digit :: "nat \<Rightarrow> char" where
  "digit n = ''0123456789'' ! (n mod 10)"

fun str_nat :: "nat \<Rightarrow> string" where
  "str_nat n = (if n < 10 then [digit n] else str_nat (n div 10) @ [digit n])"

definition str_int :: "int \<Rightarrow> string" where
  "str_int i = (if i < 0 then CHR ''-'' # str_nat (nat (- i)) else str_nat (nat i))"

text \<open>\<^verbatim>\<open>sep.join(xs)\<close> for a list of strings.\<close>

fun join :: "string \<Rightarrow> string list \<Rightarrow> string" where
  "join sep [] = []"
| "join sep [x] = x"
| "join sep (x # y # ys) = x @ sep @ join sep (y # ys)"

subsection \<open>Dicts keyed by values\<close>

text \<open>
  \<^verbatim>\<open>list_to_dict\<close> builds a dict whose keys are field values. Only \<^verbatim>\<open>None\<close>, bools,
  ints and strings can be keys (a list or a dict is unhashable), and Python finds a key
  by \<^verbatim>\<open>==\<close>, under which \<^verbatim>\<open>True\<close> is \<^verbatim>\<open>1\<close> and \<^verbatim>\<open>False\<close> is \<^verbatim>\<open>0\<close>.
\<close>

type_synonym pydict = "(json \<times> json) list"

fun hashable :: "json \<Rightarrow> bool" where
  "hashable (JList xs) = False"
| "hashable (JObj kv) = False"
| "hashable _ = True"

fun key_norm :: "json \<Rightarrow> json" where
  "key_norm (JBool b) = JInt (of_bool b)"
| "key_norm k = k"

definition key_eq :: "json \<Rightarrow> json \<Rightarrow> bool" where
  "key_eq a b = (key_norm a = key_norm b)"

text \<open>\<^verbatim>\<open>d.get(key)\<close>, \<^verbatim>\<open>key in d\<close> and \<^verbatim>\<open>d[key] = v\<close>.\<close>

fun dict_get :: "pydict \<Rightarrow> json \<Rightarrow> json option" where
  "dict_get [] key = None"
| "dict_get ((k, v) # d) key = (if key_eq k key then Some v else dict_get d key)"

definition dict_contains :: "pydict \<Rightarrow> json \<Rightarrow> exn + bool" where
  "dict_contains d key = (if hashable key then Inr (dict_get d key \<noteq> None) else Inl TypeError)"

text \<open>An assignment to a key that is present keeps the key object and its position.\<close>

fun dict_set :: "pydict \<Rightarrow> json \<Rightarrow> json \<Rightarrow> pydict" where
  "dict_set [] key v = [(key, v)]"
| "dict_set ((k, x) # d) key v = (if key_eq k key then (k, v) # d else (k, x) # dict_set d key v)"

text \<open>\<^verbatim>\<open>str(key)\<close> for a hashable value (the only ones \<^verbatim>\<open>list_to_dict\<close> prints).\<close>

fun str_key :: "json \<Rightarrow> string" where
  "str_key JNull = ''None''"
| "str_key (JBool b) = (if b then ''True'' else ''False'')"
| "str_key (JInt i) = str_int i"
| "str_key (JStr s) = s"
| "str_key _ = []"

section \<open>The static helper \<^verbatim>\<open>list_to_dict\<close>\<close>

text \<open>
  \<^verbatim>\<open>
  def list_to_dict(list_in, metakey):
      return_dict = {}
      for record in list_in:
          key = record[metakey]
          if key in return_dict:
              print(f'Warning: {key} already present, overwriting')
          return_dict[key] = record
      return return_dict
  \<close>
  The loop, with the dict built so far and the lines printed so far.
\<close>

fun list_to_dict_loop ::
  "json list \<Rightarrow> string \<Rightarrow> pydict \<Rightarrow> event list \<Rightarrow> (exn + pydict) \<times> event list" where
  "list_to_dict_loop [] metakey return_dict out = (Inr return_dict, out)"
| "list_to_dict_loop (record # rest) metakey return_dict out =
     (case py_getitem record metakey of
        Inl e \<Rightarrow> (Inl e, out)
      | Inr key \<Rightarrow>
          (case dict_contains return_dict key of
             Inl e \<Rightarrow> (Inl e, out)
           | Inr present \<Rightarrow>
               list_to_dict_loop rest metakey (dict_set return_dict key record)
                 (if present
                  then out @ [Printed (''Warning: '' @ str_key key @ '' already present, overwriting'')]
                  else out)))"

definition list_to_dict :: "json list \<Rightarrow> string \<Rightarrow> (exn + pydict) \<times> event list" where
  "list_to_dict list_in metakey = list_to_dict_loop list_in metakey [] []"

text \<open>The record a key field value selects: the last one of the list whose field equals it.\<close>

definition has_key_value :: "string \<Rightarrow> json \<Rightarrow> json \<Rightarrow> bool" where
  "has_key_value metakey key record =
     (case py_getitem record metakey of Inl e \<Rightarrow> False | Inr k \<Rightarrow> key_eq k key)"

definition last_occurrence :: "json list \<Rightarrow> string \<Rightarrow> json \<Rightarrow> json option" where
  "last_occurrence list_in metakey key = find (has_key_value metakey key) (rev list_in)"

text \<open>A list of records \<^verbatim>\<open>list_to_dict\<close> accepts: each is a dict with a hashable key field.\<close>

definition keyed_record :: "string \<Rightarrow> json \<Rightarrow> bool" where
  "keyed_record metakey record =
     (case py_getitem record metakey of Inl e \<Rightarrow> False | Inr k \<Rightarrow> hashable k)"

text \<open>
  The lines a run over \<open>list_in\<close> is expected to print: one warning for each record whose
  key field value already occurred in an earlier record, in list order, and nothing else.
  \<open>overwrite_warnings metakey earlier rest\<close> gives the lines for the records \<open>rest\<close> that
  come after the records \<open>earlier\<close>.
\<close>

definition seen_before :: "string \<Rightarrow> json list \<Rightarrow> json \<Rightarrow> bool" where
  "seen_before metakey earlier r =
     (case py_getitem r metakey of
        Inl e \<Rightarrow> False
      | Inr k \<Rightarrow> \<exists>r' \<in> set earlier. has_key_value metakey k r')"

definition overwrite_warning :: "string \<Rightarrow> json \<Rightarrow> event" where
  "overwrite_warning metakey r =
     Printed (''Warning: '' @ (case py_getitem r metakey of Inl e \<Rightarrow> [] | Inr k \<Rightarrow> str_key k) @
              '' already present, overwriting'')"

fun overwrite_warnings :: "string \<Rightarrow> json list \<Rightarrow> json list \<Rightarrow> event list" where
  "overwrite_warnings metakey earlier [] = []"
| "overwrite_warnings metakey earlier (r # rest) =
     (if seen_before metakey earlier r then [overwrite_warning metakey r] else []) @
     overwrite_warnings metakey (earlier @ [r]) rest"

section \<open>The HTTP transport and the client's surroundings\<close>

text \<open>
  A request as the \<^verbatim>\<open>requests\<close> library receives it from the client: the method, the URL,
  the headers, and the body (\<^verbatim>\<open>json=\<close>, or the parts of \<^verbatim>\<open>files=\<close>). A multipart part is
  either \<^verbatim>\<open>(None, json.dumps(obj))\<close> or \<^verbatim>\<open>(filename, filedata)\<close>.
\<close>

datatype http_method = GET | POST

datatype part =
    Dumped json
  | FileData string bytes

datatype payload =
    NoPayload
  | JsonPayload json
  | Files "(string \<times> part) list"

record request =
  meth :: http_method
  url :: string
  req_headers :: "(string \<times> string) list"
  body :: payload

text \<open>
  A response as the client reads it: \<^verbatim>\<open>status_code\<close>, \<^verbatim>\<open>content\<close>, \<^verbatim>\<open>text\<close>, and what
  \<^verbatim>\<open>json()\<close> gives (\<open>None\<close> when the body is not JSON, where \<^verbatim>\<open>json()\<close> raises).
\<close>

record response =
  status_code :: int
  content :: bytes
  text_str :: string
  json_body :: "json option"

text \<open>
  What lies outside the repository is a parameter of every method: the server behind the
  HTTP library (any state machine over a state \<open>'w\<close>, answering a request with a
  response or with an exception of the library), \<^verbatim>\<open>urllib.parse.urlencode\<close>, the bundled
  table \<^verbatim>\<open>modules.json\<close> (module name to numeric id) as parsed, and the local files
  (\<open>None\<close> for a path that does not exist).
\<close>

type_synonym path = "string list"

record 'w env =
  transport :: "request \<Rightarrow> 'w \<Rightarrow> (exn + response) \<times> 'w"
  urlencode :: "dict \<Rightarrow> string"
  modules_json :: "(string \<times> int) list"
  file_bytes :: "path \<Rightarrow> bytes option"

text \<open>
  The state a method runs in and leaves behind: the server's state, the requests issued
  so far (oldest first), and the lines printed and logged so far.
\<close>

record 'w world =
  remote :: 'w
  sent :: "request list"
  logged :: "event list"

definition emit :: "event \<Rightarrow> 'w world \<Rightarrow> 'w world" where
  "emit e w = w\<lparr>logged := logged w @ [e]\<rparr>"

definition send :: "'w env \<Rightarrow> request \<Rightarrow> 'w world \<Rightarrow> (exn + response) \<times> 'w world" where
  "send env rq w =
     (case transport env rq (remote w) of
        (res, s) \<Rightarrow> (res, w\<lparr>remote := s, sent := sent w @ [rq]\<rparr>))"

text \<open>\<^verbatim>\<open>response.json()\<close>, \<^verbatim>\<open>response.json()[key]\<close> and \<^verbatim>\<open>key in response.json()\<close>.\<close>

definition response_json :: "response \<Rightarrow> exn + json" where
  "response_json r = (case json_body r of None \<Rightarrow> Inl JSONDecodeError | Some j \<Rightarrow> Inr j)"

definition json_item :: "response \<Rightarrow> string \<Rightarrow> exn + json" where
  "json_item r key = (case response_json r of Inl e \<Rightarrow> Inl e | Inr j \<Rightarrow> py_getitem j key)"

definition json_has :: "response \<Rightarrow> string \<Rightarrow> exn + bool" where
  "json_has r key = (case response_json r of Inl e \<Rightarrow> Inl e | Inr j \<Rightarrow> py_in key j)"

section \<open>The client\<close>

text \<open>
  The attributes \<^verbatim>\<open>__init__\<close> sets on \<^verbatim>\<open>self\<close>. An attribute that was never set is
  \<open>None\<close>, and reading it raises \<^verbatim>\<open>AttributeError\<close>.
\<close>

record client =
  username :: "json option"
  password :: "json option"
  client_id :: "json option"
  client_secret :: "json option"
  base_url :: "string option"
  api_url :: "string option"
  headers :: "(string \<times> string) list option"
  oauth_token :: "json option"

definition new_client :: client where
  "new_client = \<lparr>username = None, password = None, client_id = None, client_secret = None,
     base_url = None, api_url = None, headers = None, oauth_token = None\<rparr>"

definition attr :: "'a option \<Rightarrow> exn + 'a" where
  "attr a = (case a of None \<Rightarrow> Inl AttributeError | Some v \<Rightarrow> Inr v)"

subsection \<open>Requests\<close>

text \<open>
  \<^verbatim>\<open>requests.get(url, headers=self.headers)\<close>. The URL of a next page comes out of a
  response body, so it is any JSON value; the library raises on one that is not a string
  before anything is sent.
\<close>

definition requests_get :: "'w env \<Rightarrow> client \<Rightarrow> json \<Rightarrow> 'w world \<Rightarrow> (exn + response) \<times> 'w world" where
  "requests_get env self u w =
     (case attr (headers self) of
        Inl e \<Rightarrow> (Inl e, w)
      | Inr h \<Rightarrow>
          (case u of
             JStr s \<Rightarrow> send env \<lparr>meth = GET, url = s, req_headers = h, body = NoPayload\<rparr> w
           | _ \<Rightarrow> (Inl RequestException, w)))"

definition request_raw :: "'w env \<Rightarrow> client \<Rightarrow> json \<Rightarrow> 'w world \<Rightarrow> (exn + response) \<times> 'w world" where
  "request_raw env self u w = requests_get env self u w"

text \<open>
  \<^verbatim>\<open>
  def generate_url(base_url, html_params):
      if len(html_params) == 0:
          return base_url
      result = base_url + '?' + urllib.parse.urlencode(html_params)
      return result
  \<close>
\<close>

definition generate_url :: "'w env \<Rightarrow> string \<Rightarrow> dict \<Rightarrow> string" where
  "generate_url env base html_params =
     (if length html_params = 0 then base else base @ ''?'' @ urlencode env html_params)"

subsection \<open>Construction and authentication\<close>

text \<open>
  \<^verbatim>\<open>
  def get_oauth_token(self):
      url = self.base_url + 'authenticate/token?grant_type=password'
      post_body = {'client_id': self.client_id, 'client_secret': self.client_secret,
                   'username': self.username, 'password': self.password}
      result = requests.post(url, json=post_body)
      if result.status_code != 200:
          raise LandaxAuthException(...)
      response_data = result.json()
      if 'access_token' not in response_data:
          raise LandaxAuthException('Landax response was non-json. Body: ' + ...)
      return response_data['access_token']
  \<close>
\<close>

definition token_request :: "client \<Rightarrow> exn + request" where
  "token_request self =
     (case attr (base_url self) of Inl e \<Rightarrow> Inl e | Inr b \<Rightarrow>
     (case attr (client_id self) of Inl e \<Rightarrow> Inl e | Inr cid \<Rightarrow>
     (case attr (client_secret self) of Inl e \<Rightarrow> Inl e | Inr secret \<Rightarrow>
     (case attr (username self) of Inl e \<Rightarrow> Inl e | Inr user \<Rightarrow>
     (case attr (password self) of Inl e \<Rightarrow> Inl e | Inr pass \<Rightarrow>
        Inr \<lparr>meth = POST, url = b @ ''authenticate/token?grant_type=password'',
             req_headers = [],
             body = JsonPayload (JObj [(''client_id'', cid), (''client_secret'', secret),
                                       (''username'', user), (''password'', pass)])\<rparr>)))))"

definition get_oauth_token :: "'w env \<Rightarrow> client \<Rightarrow> 'w world \<Rightarrow> (exn + json) \<times> 'w world" where
  "get_oauth_token env self w =
     (case token_request self of
        Inl e \<Rightarrow> (Inl e, w)
      | Inr rq \<Rightarrow>
          (case send env rq w of
             (Inl e, w') \<Rightarrow> (Inl e, w')
           | (Inr result, w') \<Rightarrow>
               if status_code result \<noteq> 200 then (Inl LandaxAuthException, w')
               else
                 (case response_json result of
                    Inl e \<Rightarrow> (Inl e, w')
                  | Inr response_data \<Rightarrow>
                      (case py_in ''access_token'' response_data of
                         Inl e \<Rightarrow> (Inl e, w')
                       | Inr present \<Rightarrow>
                           if \<not> present then (Inl LandaxAuthException, w')
                           else (py_getitem response_data ''access_token'', w')))))"

text \<open>
  \<^verbatim>\<open>
  def __init__(self, url, credentials, version='v20'):
      ...
      required_credentials = ['username', 'password', 'client_id', 'client_secret']
      for key in required_credentials:
          if key not in credentials:
              self.logger.error(f'Error: credential field is required: {key}')
              return
      self.username = credentials['username']
      ...
      self.base_url = f'https://{url}/'
      self.api_url = f'{self.base_url}api/{version}/'
      self.headers = {}
      self.oauth_token = self.get_oauth_token()
      self.headers['Authorization'] = 'Bearer ' + self.oauth_token
  \<close>
  The loop over the required fields stops at the first one that is missing. Past the
  loop every required key is in the dict, so none of the four lookups raises.
\<close>

definition required_credentials :: "string list" where
  "required_credentials = [''username'', ''password'', ''client_id'', ''client_secret'']"

fun first_missing :: "string list \<Rightarrow> dict \<Rightarrow> string option" where
  "first_missing [] credentials = None"
| "first_missing (key # rest) credentials =
     (if key \<notin> keys credentials then Some key else first_missing rest credentials)"

definition init :: "'w env \<Rightarrow> string \<Rightarrow> dict \<Rightarrow> string \<Rightarrow> 'w world \<Rightarrow> (exn + client) \<times> 'w world" where
  "init env host credentials version w =
     (case first_missing required_credentials credentials of
        Some key \<Rightarrow>
          (Inr new_client, emit (LogError (''Error: credential field is required: '' @ key)) w)
      | None \<Rightarrow>
          (let self = new_client\<lparr>
                 username := map_of credentials ''username'',
                 password := map_of credentials ''password'',
                 client_id := map_of credentials ''client_id'',
                 client_secret := map_of credentials ''client_secret'',
                 base_url := Some (''https://'' @ host @ ''/''),
                 api_url := Some (''https://'' @ host @ ''/'' @ ''api/'' @ version @ ''/''),
                 headers := Some []\<rparr>
           in case get_oauth_token env self w of
                (Inl e, w') \<Rightarrow> (Inl e, w')
              | (Inr token, w') \<Rightarrow>
                  (case py_add (JStr ''Bearer '') token of
                     Inr (JStr bearer) \<Rightarrow>
                       (Inr (self\<lparr>oauth_token := Some token,
                                  headers := Some [(''Authorization'', bearer)]\<rparr>), w')
                   | Inr _ \<Rightarrow> (Inl TypeError, w')
                   | Inl e \<Rightarrow> (Inl e, w'))))"

section \<open>Generic data operations\<close>

text \<open>
  \<^verbatim>\<open>
  def get_single_data(self, data_model, data_id, params=None):
      if params is None:
          params = {}
      base_url = f'{self.api_url}{data_model}({str(data_id)})'
      url = self.generate_url(base_url, params)
      response = requests.get(url, headers=self.headers)
      if response.status_code == 404:
          return None
      data = response.json()
      return data
  \<close>
\<close>

definition single_data_url :: "'w env \<Rightarrow> string \<Rightarrow> string \<Rightarrow> int \<Rightarrow> dict option \<Rightarrow> string" where
  "single_data_url env api data_model data_id params =
     generate_url env (api @ data_model @ ''('' @ str_int data_id @ '')'')
       (case params of None \<Rightarrow> [] | Some p \<Rightarrow> p)"

definition get_single_data ::
  "'w env \<Rightarrow> client \<Rightarrow> string \<Rightarrow> int \<Rightarrow> dict option \<Rightarrow> 'w world \<Rightarrow> (exn + json) \<times> 'w world" where
  "get_single_data env self data_model data_id params w =
     (case attr (api_url self) of
        Inl e \<Rightarrow> (Inl e, w)
      | Inr api \<Rightarrow>
          (case requests_get env self (JStr (single_data_url env api data_model data_id params)) w of
             (Inl e, w') \<Rightarrow> (Inl e, w')
           | (Inr response, w') \<Rightarrow>
               if status_code response = 404 then (Inr JNull, w')
               else (response_json response, w')))"

text \<open>
  \<^verbatim>\<open>
  def get_all_data(self, data_model, params=None, select=None):
      if params is None:
          params = {}
      if '$top' in params:
          print('Warning: pylandax.get_all_data does not support $top parameter. It will be ignored.')
          del params['$top']
      if '$skip' in params:
          print('Warning: pylandax.get_all_data does not support $skip parameter. It will be ignored.')
          del params['$skip']
      if select is not None:
          params['$select'] = ','.join(select)
      base_url = f'{self.api_url}{data_model}'
      initial_url = self.generate_url(base_url, params)
      response = self.request_raw(initial_url)
      data = response.json()['value']
      while '@odata.nextLink' in response.json():
          new_url = response.json()['@odata.nextLink']
          response = self.request_raw(new_url)
          data = data + response.json()['value']
      return data
  \<close>
  The first part works on the dict the caller passed (a fresh one when there is none);
  \<open>get_all_data_params\<close> gives that dict as the statements up to the \<^verbatim>\<open>$select\<close>
  assignment leave it, and the world with the warnings printed.
\<close>

definition strip_param :: "string \<Rightarrow> dict \<times> 'w world \<Rightarrow> dict \<times> 'w world" where
  "strip_param key pw =
     (case pw of (params, w) \<Rightarrow>
        if key \<in> keys params
        then (AList.delete key params,
              emit (Printed (''Warning: pylandax.get_all_data does not support '' @ key @
                             '' parameter. It will be ignored.'')) w)
        else (params, w))"

definition get_all_data_params ::
  "dict option \<Rightarrow> string list option \<Rightarrow> 'w world \<Rightarrow> dict \<times> 'w world" where
  "get_all_data_params params select w =
     (case strip_param ''$skip'' (strip_param ''$top'' (case params of None \<Rightarrow> [] | Some p \<Rightarrow> p, w)) of
        (params', w') \<Rightarrow>
          (case select of
             None \<Rightarrow> (params', w')
           | Some sel \<Rightarrow> (AList.update ''$select'' (JStr (join '','' sel)) params', w')))"

text \<open>
  The \<^verbatim>\<open>while\<close> loop, from the test of its condition, with the current \<^verbatim>\<open>response\<close> and
  \<^verbatim>\<open>data\<close>. A server that names a next page in every response keeps the loop running for
  ever: the result \<open>None\<close>.
\<close>

partial_function (option) follow_next_links ::
  "'w env \<Rightarrow> client \<Rightarrow> response \<Rightarrow> json \<Rightarrow> 'w world \<Rightarrow> ((exn + json) \<times> 'w world) option" where
  "follow_next_links env self response data w =
     (case json_has response ''@odata.nextLink'' of
        Inl e \<Rightarrow> Some (Inl e, w)
      | Inr has_next \<Rightarrow>
          if \<not> has_next then Some (Inr data, w)
          else
            (case json_item response ''@odata.nextLink'' of
               Inl e \<Rightarrow> Some (Inl e, w)
             | Inr new_url \<Rightarrow>
                 (case request_raw env self new_url w of
                    (Inl e, w') \<Rightarrow> Some (Inl e, w')
                  | (Inr response', w') \<Rightarrow>
                      (case json_item response' ''value'' of
                         Inl e \<Rightarrow> Some (Inl e, w')
                       | Inr v \<Rightarrow>
                           (case py_add data v of
                              Inl e \<Rightarrow> Some (Inl e, w')
                            | Inr data' \<Rightarrow> follow_next_links env self response' data' w')))))"

text \<open>
  The statements from \<^verbatim>\<open>base_url = ...\<close> to the end, on the dict as prepared: the first
  request, the first page's \<^verbatim>\<open>value\<close>, and the loop.
\<close>

definition fetch_pages ::
  "'w env \<Rightarrow> client \<Rightarrow> string \<Rightarrow> dict \<Rightarrow> 'w world \<Rightarrow> ((exn + json) \<times> 'w world) option" where
  "fetch_pages env self data_model params w =
     (case attr (api_url self) of
        Inl e \<Rightarrow> Some (Inl e, w)
      | Inr api \<Rightarrow>
          (case request_raw env self (JStr (generate_url env (api @ data_model) params)) w of
             (Inl e, w1) \<Rightarrow> Some (Inl e, w1)
           | (Inr response, w1) \<Rightarrow>
               (case json_item response ''value'' of
                  Inl e \<Rightarrow> Some (Inl e, w1)
                | Inr data \<Rightarrow> follow_next_links env self response data w1)))"

text \<open>
  The result of \<^verbatim>\<open>get_all_data\<close>: what it returns or raises, the caller's \<^verbatim>\<open>params\<close> dict
  as the call leaves it, and the world; \<open>None\<close> when the loop never ends.
\<close>

definition get_all_data ::
  "'w env \<Rightarrow> client \<Rightarrow> string \<Rightarrow> dict option \<Rightarrow> string list option \<Rightarrow> 'w world \<Rightarrow>
   ((exn + json) \<times> dict \<times> 'w world) option" where
  "get_all_data env self data_model params select w =
     (case get_all_data_params params select w of
        (params', w0) \<Rightarrow>
          map_option (\<lambda>(res, w'). (res, params', w'))
            (fetch_pages env self data_model params' w0))"

text \<open>
  A server that serves a sequence of pages, seen from the client: the request for \<open>u\<close>
  in the world \<open>w\<close> is answered by a JSON object whose \<^verbatim>\<open>value\<close> is the first page's array;
  the object has an \<^verbatim>\<open>@odata.nextLink\<close> exactly when more pages follow, and the request for
  that link is answered by the rest of the sequence in the same way.
\<close>

fun page_chain :: "'w env \<Rightarrow> client \<Rightarrow> json \<Rightarrow> 'w world \<Rightarrow> json list list \<Rightarrow> bool" where
  "page_chain env self u w [] = False"
| "page_chain env self u w (vs # rest) =
     (case request_raw env self u w of
        (Inl e, w') \<Rightarrow> False
      | (Inr r, w') \<Rightarrow>
          json_item r ''value'' = Inr (JList vs) \<and>
          (if rest = [] then json_has r ''@odata.nextLink'' = Inr False
           else json_has r ''@odata.nextLink'' = Inr True \<and>
                (case json_item r ''@odata.nextLink'' of
                   Inl e \<Rightarrow> False
                 | Inr u' \<Rightarrow> page_chain env self u' w' rest)))"

text \<open>
  The lines a call is expected to print for the \<^verbatim>\<open>params\<close> it is given: the warning for
  \<^verbatim>\<open>$top\<close> when that key is present, then the one for \<^verbatim>\<open>$skip\<close> when that key is present.
\<close>

definition top_skip_warnings :: "dict \<Rightarrow> event list" where
  "top_skip_warnings params =
     (if ''$top'' \<in> keys params
      then [Printed ''Warning: pylandax.get_all_data does not support $top parameter. It will be ignored.'']
      else []) @
     (if ''$skip'' \<in> keys params
      then [Printed ''Warning: pylandax.get_all_data does not support $skip parameter. It will be ignored.'']
      else [])"

text \<open>What a caller observes of a call besides the printed warnings.\<close>

definition observable ::
  "((exn + json) \<times> dict \<times> 'w world) option \<Rightarrow> ((exn + json) \<times> dict \<times> 'w \<times> request list) option" where
  "observable out = map_option (\<lambda>(res, params', w'). (res, params', remote w', sent w')) out"

section \<open>Document operations\<close>

text \<open>
  \<^verbatim>\<open>
  def get_document_content(self, document_id, as_pdf=False):
      if as_pdf:
          original_arg = 'False'
      else:
          original_arg = 'True'
      url = self.api_url + f'Documents/GetContent?documentid={document_id}&original={original_arg}&encode=raw'
      response = requests.get(url, headers=self.headers)
      if response.status_code != 200:
          raise LandaxDataException(...)
      return BytesIO(response.content)
  \<close>
\<close>

definition document_content_url :: "string \<Rightarrow> int \<Rightarrow> bool \<Rightarrow> string" where
  "document_content_url api document_id as_pdf =
     api @ ''Documents/GetContent?documentid='' @ str_int document_id @
     ''&original='' @ (if as_pdf then ''False'' else ''True'') @ ''&encode=raw''"

definition get_document_content ::
  "'w env \<Rightarrow> client \<Rightarrow> int \<Rightarrow> bool \<Rightarrow> 'w world \<Rightarrow> (exn + bytes) \<times> 'w world" where
  "get_document_content env self document_id as_pdf w =
     (case attr (api_url self) of
        Inl e \<Rightarrow> (Inl e, w)
      | Inr api \<Rightarrow>
          (case requests_get env self (JStr (document_content_url api document_id as_pdf)) w of
             (Inl e, w') \<Rightarrow> (Inl e, w')
           | (Inr response, w') \<Rightarrow>
               if status_code response \<noteq> 200 then (Inl LandaxDataException, w')
               else (Inr (content response), w')))"

text \<open>
  \<^verbatim>\<open>
  def documents_createdocument(self, filedata, filename, document_object, document_link=None):
      files = {'document': (None, json.dumps(document_object)),
               'fileData': (filename, filedata)}
      if document_link is not None:
          files['documentLink'] = (None, json.dumps(document_link))
      url = self.api_url + 'Documents/CreateDocument'
      response = requests.post(url, files=files, headers=self.headers)
      return response
  \<close>
\<close>

definition documents_createdocument ::
  "'w env \<Rightarrow> client \<Rightarrow> bytes \<Rightarrow> string \<Rightarrow> dict \<Rightarrow> dict option \<Rightarrow> 'w world \<Rightarrow>
   (exn + response) \<times> 'w world" where
  "documents_createdocument env self filedata filename document_object document_link w =
     (let files = [(''document'', Dumped (JObj document_object)),
                   (''fileData'', FileData filename filedata)];
          files' = (case document_link of
                      None \<Rightarrow> files
                    | Some link \<Rightarrow> AList.update ''documentLink'' (Dumped (JObj link)) files)
      in case attr (api_url self) of
           Inl e \<Rightarrow> (Inl e, w)
         | Inr api \<Rightarrow>
             (case attr (headers self) of
                Inl e \<Rightarrow> (Inl e, w)
              | Inr h \<Rightarrow>
                  send env \<lparr>meth = POST, url = api @ ''Documents/CreateDocument'',
                            req_headers = h, body = Files files'\<rparr> w))"

text \<open>
  \<^verbatim>\<open>
  def upload_document(self, filedata, filename, folder_id, document_options=None):
      if document_options is None:
          document_options = {}
      if 'FolderId' in document_options:
          logging.warning(...)
      if 'ModuleId' in document_options:
          logging.warning(...)
          del document_options['ModuleId']
      document_options['FolderId'] = folder_id
      response = self.documents_createdocument(filedata, filename, document_options)
      return response
  \<close>
  The result carries the \<^verbatim>\<open>document_options\<close> dict as the call leaves it.
\<close>

definition upload_document ::
  "'w env \<Rightarrow> client \<Rightarrow> bytes \<Rightarrow> string \<Rightarrow> json \<Rightarrow> dict option \<Rightarrow> 'w world \<Rightarrow>
   (exn + response) \<times> dict \<times> 'w world" where
  "upload_document env self filedata filename folder_id document_options w =
     (let options0 = (case document_options of None \<Rightarrow> [] | Some d \<Rightarrow> d);
          w1 = (if ''FolderId'' \<in> keys options0
                then emit (LogWarning (''Warning: pylandax.upload_document does not support FolderId '' @
                                       ''parameter in document_options. It will be ignored.'')) w
                else w);
          w2 = (if ''ModuleId'' \<in> keys options0
                then emit (LogWarning (''Warning: pylandax.upload_document does not support ModuleId '' @
                                       ''parameter in document_options. It will be ignored. '' @
                                       ''To upload a document linked to an object in a module, '' @
                                       ''use pylandax.upload_linked_document instead.'')) w1
                else w1);
          options1 = (if ''ModuleId'' \<in> keys options0 then AList.delete ''ModuleId'' options0 else options0);
          options2 = AList.update ''FolderId'' folder_id options1
      in case documents_createdocument env self filedata filename options2 None w2 of
           (res, w3) \<Rightarrow> (res, options2, w3))"

text \<open>
  \<^verbatim>\<open>
  def upload_document_from_file(self, file, document_object=None):
      if document_object is None:
          document_object = {}
      if not isinstance(file, Path):
          raise TypeError('file must be a pathlib.Path')
      if not file.exists():
          raise FileNotFoundError('file does not exist: ' + str(file))
      document_bytes = io.BytesIO(file.read_bytes())
      return self.upload_document(document_bytes, file.name, document_object)
  \<close>
  The argument \<^verbatim>\<open>file\<close> is a \<^verbatim>\<open>Path\<close> or any other value. The call of \<^verbatim>\<open>upload_document\<close>
  is positional: its third parameter is \<^verbatim>\<open>folder_id\<close>, and \<^verbatim>\<open>document_options\<close> is left to
  its default.
\<close>

datatype file_arg = PathArg path | OtherArg json

definition path_name :: "path \<Rightarrow> string" where
  "path_name p = (if p = [] then [] else last p)"

definition upload_document_from_file ::
  "'w env \<Rightarrow> client \<Rightarrow> file_arg \<Rightarrow> dict option \<Rightarrow> 'w world \<Rightarrow> (exn + response) \<times> 'w world" where
  "upload_document_from_file env self file document_object w =
     (let document_object0 = (case document_object of None \<Rightarrow> [] | Some d \<Rightarrow> d)
      in case file of
           OtherArg v \<Rightarrow> (Inl TypeError, w)
         | PathArg p \<Rightarrow>
             (case file_bytes env p of
                None \<Rightarrow> (Inl FileNotFoundError, w)
              | Some document_bytes \<Rightarrow>
                  (case upload_document env self document_bytes (path_name p) (JObj document_object0) None w of
                     (res, options, w') \<Rightarrow> (res, w'))))"

text \<open>
  \<^verbatim>\<open>
  def upload_linked_document(self, filedata, filename, folder_id, module_name,
                             linked_object_id, document_options=None):
      if document_options is None:
          document_options = {}
      if 'FolderId' in document_options:
          logging.warning(...)
      if 'ModuleId' in document_options:
          logging.warning(...)
      with open(Path(self.script_dir, 'modules.json')) as file:
          modules = json.loads(file.read())
      if module_name not in modules:
          logging.error(f'Error in pylandax.upload_linked_document: Module {module_name} not found.')
          return None
      module_id = modules[module_name]
      id_key_mapping = {6: 'IncidentId', 10: 'CoworkerId', 24: 'EquipmentId'}
      if module_id not in id_key_mapping:
          logging.error(f'Error in pylandax.upload_linked_document: Module {module_name}\'s id has no mapping to key')
          return None
      object_id_key = id_key_mapping[module_id]
      document_options['ModuleId'] = module_id
      document_link = {object_id_key: linked_object_id}
      if folder_id is not None:
          document_link['FolderId'] = folder_id
      upload_response = self.documents_createdocument(filedata, filename, document_options, document_link)
      if upload_response.status_code != 200:
          logging.error(f'Error uploading document with filename {filename}: ' + upload_response.text)
      return upload_response
  \<close>
  The result is \<open>None\<close> for Python's \<^verbatim>\<open>None\<close>, else the response; with it come the
  \<^verbatim>\<open>document_options\<close> dict as the call leaves it and the world.
\<close>

definition id_key_mapping :: "(int \<times> string) list" where
  "id_key_mapping = [(6, ''IncidentId''), (10, ''CoworkerId''), (24, ''EquipmentId'')]"

definition upload_linked_document ::
  "'w env \<Rightarrow> client \<Rightarrow> bytes \<Rightarrow> string \<Rightarrow> json \<Rightarrow> string \<Rightarrow> json \<Rightarrow> dict option \<Rightarrow> 'w world \<Rightarrow>
   (exn + response option) \<times> dict \<times> 'w world" where
  "upload_linked_document env self filedata filename folder_id module_name linked_object_id
       document_options w =
     (let options0 = (case document_options of None \<Rightarrow> [] | Some d \<Rightarrow> d);
          w1 = (if ''FolderId'' \<in> keys options0
                then emit (LogWarning (''Warning: pylandax.upload_linked_document does not support '' @
                                       ''FolderId parameter in document_options. It will be ignored.'')) w
                else w);
          w2 = (if ''ModuleId'' \<in> keys options0
                then emit (LogWarning (''Warning: pylandax.upload_linked_document does not support '' @
                                       ''ModuleId parameter in document_options. It will be ignored.'')) w1
                else w1)
      in case map_of (modules_json env) module_name of
           None \<Rightarrow>
             (Inr None, options0,
              emit (LogError (''Error in pylandax.upload_linked_document: Module '' @ module_name @
                              '' not found.'')) w2)
         | Some module_id \<Rightarrow>
             (case map_of id_key_mapping module_id of
                None \<Rightarrow>
                  (Inr None, options0,
                   emit (LogError (''Error in pylandax.upload_linked_document: Module '' @ module_name @
                                   [CHR 0x27] @ ''s id has no mapping to key'')) w2)
              | Some object_id_key \<Rightarrow>
                  (let options1 = AList.update ''ModuleId'' (JInt module_id) options0;
                       document_link = [(object_id_key, linked_object_id)];
                       document_link' = (if folder_id \<noteq> JNull
                                         then AList.update ''FolderId'' folder_id document_link
                                         else document_link)
                   in case documents_createdocument env self filedata filename options1
                             (Some document_link') w2 of
                        (Inl e, w3) \<Rightarrow> (Inl e, options1, w3)
                      | (Inr upload_response, w3) \<Rightarrow>
                          (Inr (Some upload_response), options1,
                           if status_code upload_response \<noteq> 200
                           then emit (LogError (''Error uploading document with filename '' @ filename @
                                                '': '' @ text_str upload_response)) w3
                           else w3))))"

section \<open>Test doubles\<close>

text \<open>
  Concrete surroundings to run the methods in: a server that answers the requests it
  receives from a script of responses, in order, and fails once the script is used up; an
  encoder that joins \<^verbatim>\<open>key=value\<close> pairs with \<^verbatim>\<open>&\<close>; a module table of three names; one
  local file.
\<close>

definition scripted :: "request \<Rightarrow> response list \<Rightarrow> (exn + response) \<times> response list" where
  "scripted rq script =
     (case script of [] \<Rightarrow> (Inl RequestException, []) | r # rest \<Rightarrow> (Inr r, rest))"

definition plain_urlencode :: "dict \<Rightarrow> string" where
  "plain_urlencode d = join ''&'' (map (\<lambda>(k, v). k @ ''='' @ str_key v) d)"

definition test_env :: "response list env" where
  "test_env = \<lparr>transport = scripted, urlencode = plain_urlencode,
     modules_json = [(''INCIDENTS'', 6), (''COWORKERS'', 10), (''PROJECTS'', 3)],
     file_bytes = (\<lambda>p. if p = [''tmp'', ''report.txt''] then Some ''hello'' else None)\<rparr>"

definition start :: "response list \<Rightarrow> response list world" where
  "start script = \<lparr>remote = script, sent = [], logged = []\<rparr>"

definition json_response :: "int \<Rightarrow> json \<Rightarrow> response" where
  "json_response status j = \<lparr>status_code = status, content = [], text_str = [], json_body = Some j\<rparr>"

definition raw_response :: "int \<Rightarrow> string \<Rightarrow> response" where
  "raw_response status s = \<lparr>status_code = status, content = s, text_str = s, json_body = None\<rparr>"

definition test_client :: client where
  "test_client = \<lparr>username = Some (JStr ''u''), password = Some (JStr ''p''),
     client_id = Some (JStr ''id''), client_secret = Some (JStr ''secret''),
     base_url = Some ''https://landax.test/'', api_url = Some ''https://landax.test/api/v20/'',
     headers = Some [(''Authorization'', ''Bearer abc'')], oauth_token = Some (JStr ''abc'')\<rparr>"

text \<open>Two pages of a data model: the first names the second, the second is the last.\<close>

definition page_one :: response where
  "page_one = json_response 200 (JObj [(''value'', JList [JInt 1, JInt 2]),
     (''@odata.nextLink'', JStr ''https://landax.test/api/v20/Contacts?$skip=2'')])"

definition page_two :: response where
  "page_two = json_response 200 (JObj [(''value'', JList [JInt 3])])"

section \<open>Properties of \<^verbatim>\<open>list_to_dict\<close>\<close>

lemma find_app:
  "find P (xs @ ys) = (case find P xs of None \<Rightarrow> find P ys | Some x \<Rightarrow> Some x)"
  by (induction xs) auto

lemma dict_get_dict_set:
  "dict_get (dict_set d k v) key = (if key_eq k key then Some v else dict_get d key)"
  by (induction d) (auto simp: key_eq_def)

lemma list_to_dict_loop_result:
  assumes "\<forall>r \<in> set xs. keyed_record metakey r"
    and "\<forall>k. (dict_get d0 k \<noteq> None) = (\<exists>r' \<in> set earlier. has_key_value metakey k r')"
  shows "\<exists>d. list_to_dict_loop xs metakey d0 out0 =
               (Inr d, out0 @ overwrite_warnings metakey earlier xs) \<and>
             (\<forall>key. dict_get d key =
                (case last_occurrence xs metakey key of None \<Rightarrow> dict_get d0 key | Some r \<Rightarrow> Some r))"
  using assms
proof (induction xs arbitrary: d0 out0 earlier)
  case Nil
  then show ?case by (simp add: last_occurrence_def)
next
  case (Cons rcd rest)
  from Cons.prems(1) obtain k where k: "py_getitem rcd metakey = Inr k" "hashable k"
    by (auto simp: keyed_record_def split: sum.splits)
  from Cons.prems(1) have rest: "\<forall>r \<in> set rest. keyed_record metakey r" by simp
  let ?d1 = "dict_set d0 k rcd"
  let ?out1 = "if dict_get d0 k \<noteq> None
     then out0 @ [Printed (''Warning: '' @ str_key k @ '' already present, overwriting'')] else out0"
  have seen: "seen_before metakey earlier rcd = (dict_get d0 k \<noteq> None)"
    using k Cons.prems(2) by (simp add: seen_before_def)
  have inv: "\<forall>k'. (dict_get ?d1 k' \<noteq> None) =
                 (\<exists>r' \<in> set (earlier @ [rcd]). has_key_value metakey k' r')"
    using k Cons.prems(2) by (auto simp: dict_get_dict_set has_key_value_def)
  from Cons.IH[OF rest inv, of ?out1] obtain d where
    run: "list_to_dict_loop rest metakey ?d1 ?out1 =
            (Inr d, ?out1 @ overwrite_warnings metakey (earlier @ [rcd]) rest)" and
    get: "\<forall>key. dict_get d key =
      (case last_occurrence rest metakey key of None \<Rightarrow> dict_get ?d1 key | Some r \<Rightarrow> Some r)"
    by blast
  have "list_to_dict_loop (rcd # rest) metakey d0 out0 =
          (Inr d, out0 @ overwrite_warnings metakey earlier (rcd # rest))"
    using k run seen by (simp add: dict_contains_def overwrite_warning_def)
  moreover have "\<forall>key. dict_get d key =
      (case last_occurrence (rcd # rest) metakey key of None \<Rightarrow> dict_get d0 key | Some r \<Rightarrow> Some r)"
    using get k
    by (auto simp: last_occurrence_def find_app has_key_value_def dict_get_dict_set
             split: option.splits)
  ultimately show ?case by blast
qed

text \<open>
  Claim C8. For every list of records (each a dict whose key field holds a hashable value)
  and every key field, \<^verbatim>\<open>list_to_dict\<close> returns a dict, raising nothing, in which every
  key field value maps to the full record of its last occurrence in the list: looking a
  value up gives the last record of the list whose key field equals it, and nothing when
  there is none. A duplicate key overwrites the earlier record, and all the run does
  about it is print: one warning line for each record whose key was already present, in
  list order, and no other output.
\<close>

theorem list_to_dict_last_wins:
  assumes "\<forall>r \<in> set list_in. keyed_record metakey r"
  shows "\<exists>d. list_to_dict list_in metakey = (Inr d, overwrite_warnings metakey [] list_in) \<and>
             (\<forall>key. dict_get d key = last_occurrence list_in metakey key)"
proof -
  from list_to_dict_loop_result[OF assms, of "[]" "[]" "[]"] obtain d where
    run: "list_to_dict_loop list_in metakey [] [] = (Inr d, overwrite_warnings metakey [] list_in)"
    and get: "\<forall>key. dict_get d key =
      (case last_occurrence list_in metakey key of None \<Rightarrow> dict_get [] key | Some r \<Rightarrow> Some r)"
    by auto
  have "dict_get d key = last_occurrence list_in metakey key" for key
    using get by (cases "last_occurrence list_in metakey key") simp_all
  with run show ?thesis by (auto simp: list_to_dict_def)
qed

theorem list_to_dict_last_wins_witness:
  "\<exists>d. list_to_dict
       [JObj [(''Id'', JInt 1), (''Name'', JStr ''a'')],
        JObj [(''Id'', JInt 2), (''Name'', JStr ''b'')],
        JObj [(''Id'', JInt 1), (''Name'', JStr ''c'')]] ''Id'' =
       (Inr d, [Printed ''Warning: 1 already present, overwriting'']) \<and>
     dict_get d (JInt 1) = Some (JObj [(''Id'', JInt 1), (''Name'', JStr ''c'')]) \<and>
     dict_get d (JInt 2) = Some (JObj [(''Id'', JInt 2), (''Name'', JStr ''b'')]) \<and>
     dict_get d (JInt 3) = None"
proof -
  let ?l = "[JObj [(''Id'', JInt 1), (''Name'', JStr ''a'')],
             JObj [(''Id'', JInt 2), (''Name'', JStr ''b'')],
             JObj [(''Id'', JInt 1), (''Name'', JStr ''c'')]]"
  have h: "\<forall>r \<in> set ?l. keyed_record ''Id'' r" by (simp add: keyed_record_def)
  have w: "overwrite_warnings ''Id'' [] ?l = [Printed ''Warning: 1 already present, overwriting'']"
    by (simp add: seen_before_def has_key_value_def key_eq_def overwrite_warning_def
          str_int_def digit_def)
  have a: "last_occurrence ?l ''Id'' (JInt 1) = Some (JObj [(''Id'', JInt 1), (''Name'', JStr ''c'')])"
    and b: "last_occurrence ?l ''Id'' (JInt 2) = Some (JObj [(''Id'', JInt 2), (''Name'', JStr ''b'')])"
    and c: "last_occurrence ?l ''Id'' (JInt 3) = None"
    by (simp_all add: last_occurrence_def has_key_value_def key_eq_def)
  from list_to_dict_last_wins[OF h] obtain d where
    "list_to_dict ?l ''Id'' = (Inr d, overwrite_warnings ''Id'' [] ?l)"
    and "\<forall>key. dict_get d key = last_occurrence ?l ''Id'' key" by blast
  with w a b c show ?thesis by auto
qed

section \<open>Properties of the single-request methods\<close>

text \<open>A \<^verbatim>\<open>GET\<close> the server answers leaves the response and one more request in the log.\<close>

lemma requests_get_response:
  assumes "headers self = Some h"
    and "transport env \<lparr>meth = GET, url = u, req_headers = h, body = NoPayload\<rparr> (remote w) = (Inr r, s)"
  shows "requests_get env self (JStr u) w =
           (Inr r, w\<lparr>remote := s,
                     sent := sent w @ [\<lparr>meth = GET, url = u, req_headers = h, body = NoPayload\<rparr>]\<rparr>)"
  using assms by (simp add: requests_get_def attr_def send_def)

text \<open>
  Claim C2. For every data model, id and params: when the server answers the request of
  \<^verbatim>\<open>get_single_data\<close> with status 404, the method returns \<^verbatim>\<open>None\<close> and raises nothing,
  whatever the body; for any other status it returns \<^verbatim>\<open>response.json()\<close>, the parsed JSON
  body of the response.
\<close>

theorem get_single_data_404_null:
  assumes "api_url self = Some api" and "headers self = Some h"
    and "transport env \<lparr>meth = GET, url = single_data_url env api data_model data_id params,
                         req_headers = h, body = NoPayload\<rparr> (remote w) = (Inr r, s)"
  shows "(status_code r = 404 \<longrightarrow>
            fst (get_single_data env self data_model data_id params w) = Inr JNull) \<and>
         (status_code r \<noteq> 404 \<longrightarrow>
            fst (get_single_data env self data_model data_id params w) = response_json r) \<and>
         (\<forall>j. status_code r \<noteq> 404 \<longrightarrow> json_body r = Some j \<longrightarrow>
            fst (get_single_data env self data_model data_id params w) = Inr j)"
  using assms(1) requests_get_response[OF assms(2,3)]
  by (simp add: get_single_data_def attr_def response_json_def)

theorem get_single_data_404_null_witness:
  "fst (get_single_data test_env test_client ''Contacts'' 7 None
          (start [raw_response 404 ''not found''])) = Inr JNull \<and>
   fst (get_single_data test_env test_client ''Contacts'' 7 None
          (start [json_response 200 (JObj [(''Id'', JInt 7)])])) = Inr (JObj [(''Id'', JInt 7)])"
  using get_single_data_404_null[of test_client "''https://landax.test/api/v20/''"
          "[(''Authorization'', ''Bearer abc'')]" test_env "''Contacts''" 7 None
          "start [raw_response 404 ''not found'']" "raw_response 404 ''not found''" "[]"]
        get_single_data_404_null[of test_client "''https://landax.test/api/v20/''"
          "[(''Authorization'', ''Bearer abc'')]" test_env "''Contacts''" 7 None
          "start [json_response 200 (JObj [(''Id'', JInt 7)])]"
          "json_response 200 (JObj [(''Id'', JInt 7)])" "[]"]
  by (simp add: test_client_def test_env_def scripted_def start_def raw_response_def json_response_def
        response_json_def)

text \<open>
  Claim C5. When the server answers the request of \<^verbatim>\<open>get_document_content\<close>, the method
  raises \<^verbatim>\<open>LandaxDataException\<close> if and only if the status is not 200; on a 200 it returns
  the response content; a 202 raises as every other status does.
\<close>

theorem get_document_content_status:
  assumes "api_url self = Some api" and "headers self = Some h"
    and "transport env \<lparr>meth = GET, url = document_content_url api document_id as_pdf,
                         req_headers = h, body = NoPayload\<rparr> (remote w) = (Inr r, s)"
  shows "(fst (get_document_content env self document_id as_pdf w) = Inl LandaxDataException
            \<longleftrightarrow> status_code r \<noteq> 200) \<and>
         (status_code r = 200 \<longrightarrow>
            fst (get_document_content env self document_id as_pdf w) = Inr (content r)) \<and>
         (status_code r = 202 \<longrightarrow>
            fst (get_document_content env self document_id as_pdf w) = Inl LandaxDataException)"
  using assms(1) requests_get_response[OF assms(2,3)]
  by (simp add: get_document_content_def attr_def)

theorem get_document_content_status_witness:
  "fst (get_document_content test_env test_client 42 True (start [raw_response 202 []]))
     = Inl LandaxDataException \<and>
   fst (get_document_content test_env test_client 42 False (start [raw_response 200 ''%PDF'']))
     = Inr ''%PDF''"
  using get_document_content_status[of test_client "''https://landax.test/api/v20/''"
          "[(''Authorization'', ''Bearer abc'')]" test_env 42 True
          "start [raw_response 202 []]" "raw_response 202 []" "[]"]
        get_document_content_status[of test_client "''https://landax.test/api/v20/''"
          "[(''Authorization'', ''Bearer abc'')]" test_env 42 False
          "start [raw_response 200 ''%PDF'']" "raw_response 200 ''%PDF''" "[]"]
  by (simp add: test_client_def test_env_def scripted_def start_def raw_response_def)

section \<open>Properties of the constructor\<close>

lemma first_missing_Some:
  "first_missing ks c = Some k \<Longrightarrow> k \<in> set ks \<and> k \<notin> keys c"
  by (induction ks) (auto split: if_splits)

lemma first_missing_None:
  "first_missing ks c = None \<longleftrightarrow> set ks \<subseteq> keys c"
  by (induction ks) auto

text \<open>
  Claim C7. For every credentials dict that lacks at least one of \<^verbatim>\<open>username\<close>,
  \<^verbatim>\<open>password\<close>, \<^verbatim>\<open>client_id\<close>, \<^verbatim>\<open>client_secret\<close>, the constructor logs an error naming a
  missing field and returns without raising; no request is issued (the request log and
  the server are as before), and the client it leaves has no headers and no token.
\<close>

theorem init_missing_credentials:
  assumes "\<not> set required_credentials \<subseteq> keys credentials"
  shows "\<exists>key. key \<in> set required_credentials \<and> key \<notin> keys credentials \<and>
           init env host credentials version w =
             (Inr new_client, emit (LogError (''Error: credential field is required: '' @ key)) w) \<and>
           sent (snd (init env host credentials version w)) = sent w \<and>
           remote (snd (init env host credentials version w)) = remote w \<and>
           headers new_client = None \<and> oauth_token new_client = None"
proof -
  from assms obtain key where key: "first_missing required_credentials credentials = Some key"
    using first_missing_None[of required_credentials credentials] by (cases "first_missing required_credentials credentials") auto
  from first_missing_Some[OF key] have "key \<in> set required_credentials" "key \<notin> keys credentials"
    by simp_all
  moreover have "init env host credentials version w =
      (Inr new_client, emit (LogError (''Error: credential field is required: '' @ key)) w)"
    using key by (simp add: init_def)
  ultimately show ?thesis by (auto simp: emit_def new_client_def)
qed

theorem init_missing_credentials_witness:
  "\<exists>key. key \<in> set required_credentials \<and>
     init test_env ''landax.test'' [(''username'', JStr ''u''), (''password'', JStr ''p'')] ''v20''
          (start [json_response 200 (JObj [(''access_token'', JStr ''abc'')])]) =
       (Inr new_client,
        emit (LogError (''Error: credential field is required: '' @ key))
          (start [json_response 200 (JObj [(''access_token'', JStr ''abc'')])]))"
proof -
  have h: "\<not> set required_credentials \<subseteq> keys [(''username'', JStr ''u''), (''password'', JStr ''p'')]"
    by (simp add: required_credentials_def keys_def)
  from init_missing_credentials[OF h, of test_env "''landax.test''" "''v20''"
          "start [json_response 200 (JObj [(''access_token'', JStr ''abc'')])]"]
  show ?thesis by blast
qed

section \<open>Properties of \<^verbatim>\<open>upload_linked_document\<close>\<close>

lemma map_of_None_keys: "map_of al k = None \<longleftrightarrow> k \<notin> keys al"
  by (simp add: keys_def map_of_eq_None_iff)


text \<open>
  Claim C4. For every module name that is not in the module table, or whose numeric id
  has no entry in \<^verbatim>\<open>id_key_mapping\<close>, \<^verbatim>\<open>upload_linked_document\<close> logs an error (the last
  line logged), returns \<^verbatim>\<open>None\<close> and performs no network call: the request log and the
  server are as before, and the caller's \<^verbatim>\<open>document_options\<close> is untouched.
\<close>

theorem upload_linked_document_unknown_module:
  assumes "module_name \<notin> keys (modules_json env) \<or>
           (\<exists>module_id. map_of (modules_json env) module_name = Some module_id \<and>
                        module_id \<notin> keys id_key_mapping)"
  shows "\<exists>msg w'.
           upload_linked_document env self filedata filename folder_id module_name linked_object_id
               document_options w =
             (Inr None, (case document_options of None \<Rightarrow> [] | Some d \<Rightarrow> d), w') \<and>
           sent w' = sent w \<and> remote w' = remote w \<and>
           logged w' \<noteq> [] \<and> last (logged w') = LogError msg"
proof -
  from assms show ?thesis
  proof
    assume "module_name \<notin> keys (modules_json env)"
    then have "map_of (modules_json env) module_name = None" by (simp add: map_of_None_keys)
    then show ?thesis
      by (simp add: upload_linked_document_def Let_def emit_def)
  next
    assume "\<exists>module_id. map_of (modules_json env) module_name = Some module_id \<and>
                        module_id \<notin> keys id_key_mapping"
    then obtain module_id where m: "map_of (modules_json env) module_name = Some module_id"
      and "module_id \<notin> keys id_key_mapping" by blast
    then have "map_of id_key_mapping module_id = None" by (simp add: map_of_None_keys)
    with m show ?thesis
      by (simp add: upload_linked_document_def Let_def emit_def)
  qed
qed

theorem upload_linked_document_unknown_module_witness:
  "(\<exists>msg w'. upload_linked_document test_env test_client ''img'' ''a.jpg'' JNull ''NOSUCH'' (JInt 40) None
       (start [json_response 200 JNull]) = (Inr None, [], w') \<and>
     sent w' = [] \<and> last (logged w') = LogError msg) \<and>
   (\<exists>msg w'. upload_linked_document test_env test_client ''img'' ''a.jpg'' JNull ''PROJECTS'' (JInt 40) None
       (start [json_response 200 JNull]) = (Inr None, [], w') \<and>
     sent w' = [] \<and> last (logged w') = LogError msg)"
proof -
  have a: "''NOSUCH'' \<notin> keys (modules_json test_env) \<or>
           (\<exists>module_id. map_of (modules_json test_env) ''NOSUCH'' = Some module_id \<and>
                        module_id \<notin> keys id_key_mapping)"
    by (simp add: test_env_def keys_def)
  have b: "''PROJECTS'' \<notin> keys (modules_json test_env) \<or>
           (\<exists>module_id. map_of (modules_json test_env) ''PROJECTS'' = Some module_id \<and>
                        module_id \<notin> keys id_key_mapping)"
    by (simp add: test_env_def keys_def id_key_mapping_def)
  from upload_linked_document_unknown_module[OF a, of test_client "''img''" "''a.jpg''" JNull "JInt 40" None
         "start [json_response 200 JNull]"]
       upload_linked_document_unknown_module[OF b, of test_client "''img''" "''a.jpg''" JNull "JInt 40" None
         "start [json_response 200 JNull]"]
  show ?thesis by (simp add: start_def) blast
qed

section \<open>Properties of \<^verbatim>\<open>get_all_data\<close>\<close>

subsection \<open>Following the pages\<close>

lemma request_raw_sent:
  "request_raw env self u w = (Inr r, w') \<Longrightarrow> length (sent w') = Suc (length (sent w))"
  by (auto simp: request_raw_def requests_get_def send_def attr_def
           split: sum.splits json.splits prod.splits)

lemma page_chain_Cons:
  assumes "page_chain env self u w (vs # rest)"
  obtains r w' where "request_raw env self u w = (Inr r, w')"
    and "json_item r ''value'' = Inr (JList vs)"
    and "rest = [] \<Longrightarrow> json_has r ''@odata.nextLink'' = Inr False"
    and "rest \<noteq> [] \<Longrightarrow> json_has r ''@odata.nextLink'' = Inr True \<and>
           (\<exists>u'. json_item r ''@odata.nextLink'' = Inr u' \<and> page_chain env self u' w' rest)"
proof -
  obtain a w' where rq: "request_raw env self u w = (a, w')"
    by (cases "request_raw env self u w")
  with assms obtain r where a: "a = Inr r" by (cases a) auto
  from assms rq a have body: "json_item r ''value'' = Inr (JList vs) \<and>
          (if rest = [] then json_has r ''@odata.nextLink'' = Inr False
           else json_has r ''@odata.nextLink'' = Inr True \<and>
                (case json_item r ''@odata.nextLink'' of
                   Inl e \<Rightarrow> False
                 | Inr u' \<Rightarrow> page_chain env self u' w' rest))"
    by simp
  have "rest \<noteq> [] \<Longrightarrow> json_has r ''@odata.nextLink'' = Inr True \<and>
           (\<exists>u'. json_item r ''@odata.nextLink'' = Inr u' \<and> page_chain env self u' w' rest)"
    using body by (cases "json_item r ''@odata.nextLink''") auto
  moreover have "rest = [] \<Longrightarrow> json_has r ''@odata.nextLink'' = Inr False"
    using body by simp
  ultimately show thesis using that rq a body by blast
qed

lemma follow_next_links_chain:
  assumes "request_raw env self u w = (Inr r, w1)"
    and "page_chain env self u w (vs # rest)"
  shows "\<exists>w'. follow_next_links env self r (JList acc) w1 =
                 Some (Inr (JList (acc @ concat rest)), w') \<and>
              length (sent w') = length (sent w1) + length rest"
  using assms
proof (induction rest arbitrary: u w r w1 vs acc)
  case Nil
  from Nil(2) obtain r0 w0 where "request_raw env self u w = (Inr r0, w0)"
    and "json_has r0 ''@odata.nextLink'' = Inr False"
    by (rule page_chain_Cons) simp
  with Nil(1) have "json_has r ''@odata.nextLink'' = Inr False" by simp
  then show ?case by (subst follow_next_links.simps) simp
next
  case (Cons vs' rest')
  from Cons.prems(2) obtain r0 w0 where "request_raw env self u w = (Inr r0, w0)"
    and nxt: "json_has r0 ''@odata.nextLink'' = Inr True \<and>
           (\<exists>u'. json_item r0 ''@odata.nextLink'' = Inr u' \<and> page_chain env self u' w0 (vs' # rest'))"
    by (rule page_chain_Cons) simp
  with Cons.prems(1) have eq: "r0 = r" "w0 = w1" by simp_all
  from nxt eq have has: "json_has r ''@odata.nextLink'' = Inr True" by simp
  from nxt eq obtain u' where u': "json_item r ''@odata.nextLink'' = Inr u'"
    and chain: "page_chain env self u' w1 (vs' # rest')" by blast
  from chain obtain r' w2 where rq: "request_raw env self u' w1 = (Inr r', w2)"
    and val: "json_item r' ''value'' = Inr (JList vs')"
    by (rule page_chain_Cons)
  from Cons.IH[OF rq chain, of "acc @ vs'"] obtain w' where
    run: "follow_next_links env self r' (JList (acc @ vs')) w2 =
            Some (Inr (JList ((acc @ vs') @ concat rest')), w')"
    and len: "length (sent w') = length (sent w2) + length rest'"
    by blast
  have "follow_next_links env self r (JList acc) w1 =
          Some (Inr (JList (acc @ concat (vs' # rest'))), w')"
    by (subst follow_next_links.simps) (simp add: has u' rq val run)
  moreover have "length (sent w') = length (sent w1) + length (vs' # rest')"
    using len request_raw_sent[OF rq] by simp
  ultimately show ?case by blast
qed

lemma strip_param_sent:
  "strip_param key (p, w) = (p', w') \<Longrightarrow> sent w' = sent w \<and> remote w' = remote w"
  by (auto simp: strip_param_def emit_def split: if_splits)

lemma strip_param_delete: "fst (strip_param key (p, w)) = AList.delete key p"
  by (simp add: strip_param_def keys_def)

lemma get_all_data_params_sent:
  assumes "get_all_data_params params select w = (p', w')"
  shows "sent w' = sent w \<and> remote w' = remote w"
proof -
  obtain p1 w1 where a: "strip_param ''$top'' (case params of None \<Rightarrow> [] | Some p \<Rightarrow> p, w) = (p1, w1)"
    by (cases "strip_param ''$top'' (case params of None \<Rightarrow> [] | Some p \<Rightarrow> p, w)")
  obtain p2 w2 where b: "strip_param ''$skip'' (p1, w1) = (p2, w2)"
    by (cases "strip_param ''$skip'' (p1, w1)")
  from assms a b have "w' = w2" by (simp add: get_all_data_params_def split: option.splits)
  with strip_param_sent[OF a] strip_param_sent[OF b] show ?thesis by simp
qed

lemma get_all_data_params_dict:
  "fst (get_all_data_params params select w) =
     (case select of None \<Rightarrow> id | Some sel \<Rightarrow> AList.update ''$select'' (JStr (join '','' sel)))
       (AList.delete ''$skip'' (AList.delete ''$top'' (case params of None \<Rightarrow> [] | Some p \<Rightarrow> p)))"
proof -
  obtain p1 w1 where a: "strip_param ''$top'' (case params of None \<Rightarrow> [] | Some p \<Rightarrow> p, w) = (p1, w1)"
    by (cases "strip_param ''$top'' (case params of None \<Rightarrow> [] | Some p \<Rightarrow> p, w)")
  obtain p2 w2 where b: "strip_param ''$skip'' (p1, w1) = (p2, w2)"
    by (cases "strip_param ''$skip'' (p1, w1)")
  from a have p1: "p1 = AList.delete ''$top'' (case params of None \<Rightarrow> [] | Some p \<Rightarrow> p)"
    using strip_param_delete[of "''$top''" "case params of None \<Rightarrow> [] | Some p \<Rightarrow> p" w] by simp
  from b have p2: "p2 = AList.delete ''$skip'' p1"
    using strip_param_delete[of "''$skip''" p1 w1] by simp
  show ?thesis using a b p1 p2 by (simp add: get_all_data_params_def split: option.splits)
qed

lemma fetch_pages_chain:
  assumes "api_url self = Some api"
    and "page_chain env self (JStr (generate_url env (api @ data_model) p)) w0 pages"
  shows "\<exists>w'. fetch_pages env self data_model p w0 = Some (Inr (JList (concat pages)), w') \<and>
              length (sent w') = length (sent w0) + length pages"
proof -
  let ?u = "JStr (generate_url env (api @ data_model) p)"
  from assms(2) obtain vs rest where pages: "pages = vs # rest" by (cases pages) auto
  from assms(2) pages have chain: "page_chain env self ?u w0 (vs # rest)" by simp
  from chain obtain r w1 where rq: "request_raw env self ?u w0 = (Inr r, w1)"
    and val: "json_item r ''value'' = Inr (JList vs)"
    by (rule page_chain_Cons)
  from follow_next_links_chain[OF rq chain, of vs] obtain w' where
    run: "follow_next_links env self r (JList vs) w1 = Some (Inr (JList (vs @ concat rest)), w')"
    and len: "length (sent w') = length (sent w1) + length rest"
    by blast
  have "fetch_pages env self data_model p w0 = Some (Inr (JList (concat pages)), w')"
    using assms(1) rq val run pages by (simp add: fetch_pages_def attr_def)
  moreover have "length (sent w') = length (sent w0) + length pages"
    using len request_raw_sent[OF rq] pages by simp
  ultimately show ?thesis by blast
qed



subsection \<open>The printed warnings do not reach the server\<close>

lemma request_raw_logged:
  "request_raw env self u (w\<lparr>logged := l\<rparr>) =
     (case request_raw env self u w of (res, w') \<Rightarrow> (res, w'\<lparr>logged := l\<rparr>))"
  by (simp add: request_raw_def requests_get_def send_def attr_def
           split: sum.splits json.splits prod.splits option.splits)

lemma follow_next_links_logged_Some:
  assumes "follow_next_links env self r d w = Some y"
  shows "follow_next_links env self r d (w\<lparr>logged := l\<rparr>) = Some (fst y, (snd y)\<lparr>logged := l\<rparr>)"
proof (rule follow_next_links.raw_induct[where P = "\<lambda>env self r d w y.
          follow_next_links env self r d (w\<lparr>logged := l\<rparr>) = Some (fst y, (snd y)\<lparr>logged := l\<rparr>)",
        OF _ assms], goal_cases)
  case (1 follow env self response data w y)
  note IH = "1"(1) and body = "1"(2)
  show ?case
    using body
    by (subst follow_next_links.simps)
       (auto simp: request_raw_logged split: sum.splits prod.splits if_splits dest: IH)
qed

lemma follow_next_links_logged:
  "follow_next_links env self r d (w\<lparr>logged := l\<rparr>) =
     map_option (\<lambda>(res, w'). (res, w'\<lparr>logged := l\<rparr>)) (follow_next_links env self r d w)"
proof (cases "follow_next_links env self r d w")
  case (Some y)
  from follow_next_links_logged_Some[OF Some, of l] show ?thesis
    by (simp add: Some case_prod_beta)
next
  case None
  have "follow_next_links env self r d (w\<lparr>logged := l\<rparr>) = None"
  proof (cases "follow_next_links env self r d (w\<lparr>logged := l\<rparr>)")
    case (Some y)
    from follow_next_links_logged_Some[OF Some, of "logged w"] None show ?thesis by simp
  qed simp
  with None show ?thesis by simp
qed

lemma fetch_pages_logged:
  "fetch_pages env self data_model p (w\<lparr>logged := l\<rparr>) =
     map_option (\<lambda>(res, w'). (res, w'\<lparr>logged := l\<rparr>)) (fetch_pages env self data_model p w)"
  by (auto simp: fetch_pages_def request_raw_logged follow_next_links_logged
           split: sum.splits prod.splits)

lemma strip_param_world:
  "snd (strip_param key (p, w)) = w\<lparr>logged := logged (snd (strip_param key (p, w)))\<rparr>"
  by (simp add: strip_param_def emit_def)

lemma get_all_data_params_world:
  "snd (get_all_data_params params select w) =
     w\<lparr>logged := logged (snd (get_all_data_params params select w))\<rparr>"
proof -
  obtain p' w' where r: "get_all_data_params params select w = (p', w')"
    by (cases "get_all_data_params params select w")
  from get_all_data_params_sent[OF r] have "w' = w\<lparr>logged := logged w'\<rparr>" by simp
  with r show ?thesis by simp
qed

lemma get_all_data_observable:
  "observable (get_all_data env self data_model params select w) =
     map_option (\<lambda>(res, w'). (res, fst (get_all_data_params params select w), remote w', sent w'))
       (fetch_pages env self data_model (fst (get_all_data_params params select w)) w)"
proof -
  obtain p' w0 where r: "get_all_data_params params select w = (p', w0)"
    by (cases "get_all_data_params params select w")
  from get_all_data_params_world[of params select w] r
  have w0: "w0 = w\<lparr>logged := logged w0\<rparr>" by simp
  have "fetch_pages env self data_model p' w0 =
     map_option (\<lambda>(res, w'). (res, w'\<lparr>logged := logged w0\<rparr>)) (fetch_pages env self data_model p' w)"
    by (subst w0) (rule fetch_pages_logged)
  then show ?thesis
    by (simp add: observable_def get_all_data_def r option.map_comp comp_def case_prod_unfold)
qed


subsection \<open>What the first statements leave: the dict and the warnings\<close>

lemma keys_delete: "k \<in> keys (AList.delete k' al) \<longleftrightarrow> k \<in> keys al \<and> k \<noteq> k'"
  by (auto simp: keys_def AList.delete_keys)

lemma keys_update: "k' \<in> keys (AList.update k v al) \<longleftrightarrow> k' = k \<or> k' \<in> keys al"
  by (auto simp: keys_def AList.update_keys)

lemma strip_param_eq:
  "strip_param key (p, w) =
     (AList.delete key p,
      w\<lparr>logged := logged w @
          (if key \<in> keys p
           then [Printed (''Warning: pylandax.get_all_data does not support '' @ key @
                          '' parameter. It will be ignored.'')]
           else [])\<rparr>)"
  by (simp add: strip_param_def emit_def keys_def)

lemma get_all_data_params_eq:
  "get_all_data_params (Some params) select w =
     ((case select of None \<Rightarrow> id | Some sel \<Rightarrow> AList.update ''$select'' (JStr (join '','' sel)))
        (AList.delete ''$skip'' (AList.delete ''$top'' params)),
      w\<lparr>logged := logged w @ top_skip_warnings params\<rparr>)"
  by (cases select)
     (simp_all add: get_all_data_params_def strip_param_eq top_skip_warnings_def keys_delete)

lemma top_skip_warnings_stripped:
  "top_skip_warnings (AList.delete ''$skip'' (AList.delete ''$top'' params)) = []"
  "top_skip_warnings (AList.delete ''$top'' (AList.delete ''$skip'' params)) = []"
  by (simp_all add: top_skip_warnings_def keys_delete)

lemma fetch_pages_keeps_log:
  assumes "fetch_pages env self data_model p w = Some (res, w')"
  shows "logged w' = logged w"
proof -
  from fetch_pages_logged[where w = w and l = "logged w", of env self data_model p] assms
  have "w' = w'\<lparr>logged := logged w\<rparr>" by simp
  then have "logged w' = logged (w'\<lparr>logged := logged w\<rparr>)"
    by (rule arg_cong[where f = logged])
  also have "\<dots> = logged w" by simp
  finally show ?thesis .
qed

text \<open>
  Claim C3. For every \<^verbatim>\<open>params\<close> dict, \<^verbatim>\<open>get_all_data\<close> gives the same output as the same
  call on the dict without its \<^verbatim>\<open>$top\<close> and \<^verbatim>\<open>$skip\<close> entries: the same value returned or
  exception raised (or the same non-termination), the same final dict, the same requests
  sent and the same server state. The call is the call on the stripped dict, run once the
  warnings are printed: both keys are stripped, with a warning printed for each key that
  is present, before any request is issued; the requests are those for the stripped dict;
  and when the call is over the log holds the lines that were there, then these warnings,
  and nothing more.
\<close>

theorem get_all_data_ignores_top_skip:
  "observable (get_all_data env self data_model (Some params) select w) =
   observable (get_all_data env self data_model
                 (Some (AList.delete ''$skip'' (AList.delete ''$top'' params))) select w) \<and>
   get_all_data env self data_model (Some params) select w =
     get_all_data env self data_model
       (Some (AList.delete ''$skip'' (AList.delete ''$top'' params))) select
       (w\<lparr>logged := logged w @ top_skip_warnings params\<rparr>) \<and>
   get_all_data env self data_model (Some params) select w =
     map_option
       (\<lambda>(res, w'). (res, fst (get_all_data_params (Some params) select w), w'))
       (fetch_pages env self data_model
          ((case select of None \<Rightarrow> id | Some sel \<Rightarrow> AList.update ''$select'' (JStr (join '','' sel)))
             (AList.delete ''$skip'' (AList.delete ''$top'' params)))
          (w\<lparr>logged := logged w @ top_skip_warnings params\<rparr>)) \<and>
   (\<forall>res p w'. get_all_data env self data_model (Some params) select w = Some (res, p, w') \<longrightarrow>
      logged w' = logged w @ top_skip_warnings params)"
proof (intro conjI allI impI)
  show "observable (get_all_data env self data_model (Some params) select w) =
        observable (get_all_data env self data_model
                 (Some (AList.delete ''$skip'' (AList.delete ''$top'' params))) select w)"
    by (simp add: get_all_data_observable get_all_data_params_dict AList.delete_idem AList.delete_twist)
  show "get_all_data env self data_model (Some params) select w =
     get_all_data env self data_model
       (Some (AList.delete ''$skip'' (AList.delete ''$top'' params))) select
       (w\<lparr>logged := logged w @ top_skip_warnings params\<rparr>)"
    by (simp add: get_all_data_def get_all_data_params_eq top_skip_warnings_stripped
          AList.delete_idem AList.delete_twist)
  show "get_all_data env self data_model (Some params) select w =
     map_option
       (\<lambda>(res, w'). (res, fst (get_all_data_params (Some params) select w), w'))
       (fetch_pages env self data_model
          ((case select of None \<Rightarrow> id | Some sel \<Rightarrow> AList.update ''$select'' (JStr (join '','' sel)))
             (AList.delete ''$skip'' (AList.delete ''$top'' params)))
          (w\<lparr>logged := logged w @ top_skip_warnings params\<rparr>))"
    by (simp add: get_all_data_def get_all_data_params_eq)
next
  fix res p w'
  assume "get_all_data env self data_model (Some params) select w = Some (res, p, w')"
  then obtain p0 where "fetch_pages env self data_model p0
      (w\<lparr>logged := logged w @ top_skip_warnings params\<rparr>) = Some (res, w')"
    by (auto simp: get_all_data_def get_all_data_params_eq)
  from fetch_pages_keeps_log[OF this] show "logged w' = logged w @ top_skip_warnings params"
    by simp
qed

text \<open>
  Claim C10. \<^verbatim>\<open>get_all_data\<close> changes the dict its caller passes as \<^verbatim>\<open>params\<close>. The
  statements before the first request leave it, whatever the server does afterwards and
  whether or not the loop ends, as the dict passed in with any \<^verbatim>\<open>$top\<close> and \<^verbatim>\<open>$skip\<close>
  entries deleted and, when a select list is given, with \<^verbatim>\<open>$select\<close> set to the fields
  joined by commas; nothing has been sent by then. The rest of the call runs on that
  dict, and it is the dict every outcome of the call leaves to the caller.
\<close>

theorem get_all_data_mutates_params:
  "fst (get_all_data_params (Some params) select w) =
     (case select of None \<Rightarrow> id | Some sel \<Rightarrow> AList.update ''$select'' (JStr (join '','' sel)))
       (AList.delete ''$skip'' (AList.delete ''$top'' params)) \<and>
   ''$top'' \<notin> keys (fst (get_all_data_params (Some params) select w)) \<and>
   ''$skip'' \<notin> keys (fst (get_all_data_params (Some params) select w)) \<and>
   (\<forall>sel. select = Some sel \<longrightarrow>
      map_of (fst (get_all_data_params (Some params) select w)) ''$select'' =
        Some (JStr (join '','' sel))) \<and>
   sent (snd (get_all_data_params (Some params) select w)) = sent w \<and>
   get_all_data env self data_model (Some params) select w =
     map_option (\<lambda>(res, w'). (res, fst (get_all_data_params (Some params) select w), w'))
       (fetch_pages env self data_model (fst (get_all_data_params (Some params) select w))
          (snd (get_all_data_params (Some params) select w))) \<and>
   (\<forall>res params' w'.
      get_all_data env self data_model (Some params) select w = Some (res, params', w') \<longrightarrow>
      params' = fst (get_all_data_params (Some params) select w))"
proof -
  let ?D = "fst (get_all_data_params (Some params) select w)"
  have eq: "?D =
     (case select of None \<Rightarrow> id | Some sel \<Rightarrow> AList.update ''$select'' (JStr (join '','' sel)))
       (AList.delete ''$skip'' (AList.delete ''$top'' params))"
    by (simp add: get_all_data_params_eq)
  have a: "''$top'' \<notin> keys ?D"
    unfolding eq by (cases select; simp add: keys_update keys_delete)
  have b: "''$skip'' \<notin> keys ?D"
    unfolding eq by (cases select; simp add: keys_update keys_delete)
  have c: "\<forall>sel. select = Some sel \<longrightarrow> map_of ?D ''$select'' = Some (JStr (join '','' sel))"
    unfolding eq by (auto simp: AList.update_conv')
  have f: "sent (snd (get_all_data_params (Some params) select w)) = sent w"
    by (simp add: get_all_data_params_eq)
  have d: "get_all_data env self data_model (Some params) select w =
     map_option (\<lambda>(res, w'). (res, ?D, w'))
       (fetch_pages env self data_model ?D (snd (get_all_data_params (Some params) select w)))"
    by (simp add: get_all_data_def case_prod_unfold)
  have e: "\<forall>res params' w'.
      get_all_data env self data_model (Some params) select w = Some (res, params', w') \<longrightarrow>
      params' = ?D"
    by (auto simp: get_all_data_def case_prod_unfold)
  show ?thesis
    by (intro conjI) (fact eq a b c f d e)+
qed

section \<open>Runs on the test doubles\<close>

lemmas test_defs = test_client_def test_env_def scripted_def start_def json_response_def
  raw_response_def page_one_def page_two_def

lemmas run_defs = request_raw_def requests_get_def attr_def send_def json_item_def json_has_def
  response_json_def generate_url_def keys_def get_all_data_params_def strip_param_def emit_def

subsection \<open>\<^verbatim>\<open>get_all_data\<close> on two pages\<close>


theorem get_all_data_ignores_top_skip_witness:
  "\<exists>w'. get_all_data test_env test_client ''Contacts''
       (Some [(''$top'', JInt 5), (''$filter'', JStr ''Id gt 1''), (''$skip'', JInt 10)]) None
       (start [page_one, page_two]) =
        Some (Inr (JList [JInt 1, JInt 2, JInt 3]), [(''$filter'', JStr ''Id gt 1'')], w') \<and>
     logged w' =
       [Printed ''Warning: pylandax.get_all_data does not support $top parameter. It will be ignored.'',
        Printed ''Warning: pylandax.get_all_data does not support $skip parameter. It will be ignored.''] \<and>
     length (sent w') = 2"
proof -
  let ?params = "[(''$top'', JInt 5), (''$filter'', JStr ''Id gt 1''), (''$skip'', JInt 10)]"
  let ?w = "start [page_one, page_two]"
  let ?printed = "?w\<lparr>logged := logged ?w @ top_skip_warnings ?params\<rparr>"
  note inst = get_all_data_ignores_top_skip[where env = test_env and self = test_client
      and data_model = "''Contacts''" and params = ?params and select = None and w = ?w]
  have api: "api_url test_client = Some ''https://landax.test/api/v20/''"
    by (simp add: test_client_def)
  have chain: "page_chain test_env test_client
      (JStr (generate_url test_env (''https://landax.test/api/v20/'' @ ''Contacts'')
               [(''$filter'', JStr ''Id gt 1'')])) ?printed [[JInt 1, JInt 2], [JInt 3]]"
    by (simp add: test_defs run_defs)
  from fetch_pages_chain[OF api chain] obtain w' where
    run: "fetch_pages test_env test_client ''Contacts'' [(''$filter'', JStr ''Id gt 1'')] ?printed =
            Some (Inr (JList [JInt 1, JInt 2, JInt 3]), w')"
    and len: "length (sent w') = length (sent ?printed) + 2"
    by auto
  have p: "fst (get_all_data_params (Some ?params) None ?w) = [(''$filter'', JStr ''Id gt 1'')]"
    by (simp add: get_all_data_params_eq)
  note unfold = inst[THEN conjunct2, THEN conjunct2, THEN conjunct1]
  note log = inst[THEN conjunct2, THEN conjunct2, THEN conjunct2]
  from unfold run p have res: "get_all_data test_env test_client ''Contacts'' (Some ?params) None ?w =
      Some (Inr (JList [JInt 1, JInt 2, JInt 3]), [(''$filter'', JStr ''Id gt 1'')], w')"
    by simp
  from log[rule_format, OF res] have "logged w' = logged ?w @ top_skip_warnings ?params" .
  then have "logged w' =
       [Printed ''Warning: pylandax.get_all_data does not support $top parameter. It will be ignored.'',
        Printed ''Warning: pylandax.get_all_data does not support $skip parameter. It will be ignored.'']"
    by (simp add: top_skip_warnings_def keys_def start_def)
  moreover from len have "length (sent w') = 2" by (simp add: start_def)
  ultimately show ?thesis using res by blast
qed

theorem get_all_data_mutates_params_witness:
  "fst (get_all_data_params (Some [(''$top'', JInt 5), (''$filter'', JStr ''Id gt 1'')])
          (Some [''Id'', ''Name'']) (start [page_two])) =
     [(''$filter'', JStr ''Id gt 1''), (''$select'', JStr ''Id,Name'')] \<and>
   (\<exists>res w'. get_all_data test_env test_client ''Contacts''
       (Some [(''$top'', JInt 5), (''$filter'', JStr ''Id gt 1'')]) (Some [''Id'', ''Name''])
       (start [page_two]) =
     Some (res, [(''$filter'', JStr ''Id gt 1''), (''$select'', JStr ''Id,Name'')], w'))"
proof -
  let ?params = "[(''$top'', JInt 5), (''$filter'', JStr ''Id gt 1'')]"
  let ?sel = "Some [''Id'', ''Name'']"
  let ?w = "start [page_two]"
  note inst = get_all_data_mutates_params[where env = test_env and self = test_client
      and data_model = "''Contacts''" and params = ?params and select = ?sel and w = ?w]
  note dict = inst[THEN conjunct1]
  note unfold = inst[THEN conjunct2, THEN conjunct2, THEN conjunct2, THEN conjunct2, THEN conjunct2, THEN conjunct1]
  from dict have p: "fst (get_all_data_params (Some ?params) ?sel ?w) =
      [(''$filter'', JStr ''Id gt 1''), (''$select'', JStr ''Id,Name'')]"
    by simp
  have api: "api_url test_client = Some ''https://landax.test/api/v20/''"
    by (simp add: test_client_def)
  have chain: "page_chain test_env test_client
      (JStr (generate_url test_env (''https://landax.test/api/v20/'' @ ''Contacts'')
               [(''$filter'', JStr ''Id gt 1''), (''$select'', JStr ''Id,Name'')]))
      (snd (get_all_data_params (Some ?params) ?sel ?w)) [[JInt 3]]"
    by (simp add: get_all_data_params_eq top_skip_warnings_def test_defs run_defs)
  from fetch_pages_chain[OF api chain] obtain w' where
    "fetch_pages test_env test_client ''Contacts''
       [(''$filter'', JStr ''Id gt 1''), (''$select'', JStr ''Id,Name'')]
       (snd (get_all_data_params (Some ?params) ?sel ?w)) = Some (Inr (JList [JInt 3]), w')"
    by auto
  with unfold p have "get_all_data test_env test_client ''Contacts'' (Some ?params) ?sel ?w =
      Some (Inr (JList [JInt 3]), [(''$filter'', JStr ''Id gt 1''), (''$select'', JStr ''Id,Name'')], w')"
    by simp
  with p show ?thesis by blast
qed

subsection \<open>The token request on a body that is not JSON\<close>

text \<open>
  Claim C6 says that the token step raises \<^verbatim>\<open>LandaxAuthException\<close> exactly when the status
  is not 200 or the body lacks an \<^verbatim>\<open>access_token\<close> field, and the code's own message for
  the missing field reads \<^verbatim>\<open>Landax response was non-json\<close>. On a 200 answer whose body is
  not JSON, \<^verbatim>\<open>result.json()\<close> raises before the field is looked for: the token step, and
  the constructor with it, ends with the JSON decoding error and not with
  \<^verbatim>\<open>LandaxAuthException\<close>.
\<close>

theorem get_oauth_token_non_json_body:
  "fst (get_oauth_token test_env test_client (start [raw_response 200 ''<html>login</html>'']))
     = Inl JSONDecodeError \<and>
   fst (init test_env ''landax.test''
          [(''username'', JStr ''u''), (''password'', JStr ''p''),
           (''client_id'', JStr ''id''), (''client_secret'', JStr ''secret'')] ''v20''
          (start [raw_response 200 ''<html>login</html>''])) = Inl JSONDecodeError"
  by (simp add: get_oauth_token_def token_request_def init_def required_credentials_def
        new_client_def test_defs run_defs)

text \<open>
  Where the 200 body is a JSON object the step does what it is meant to: it raises
  \<^verbatim>\<open>LandaxAuthException\<close> when the object has no \<^verbatim>\<open>access_token\<close> and returns the field
  otherwise.
\<close>

lemma get_oauth_token_object_body:
  assumes "token_request self = Inr rq"
    and "transport env rq (remote w) = (Inr r, s)"
    and "json_body r = Some (JObj kv)"
  shows "fst (get_oauth_token env self w) =
           (if status_code r \<noteq> 200 then Inl LandaxAuthException
            else case map_of kv ''access_token'' of
                   None \<Rightarrow> Inl LandaxAuthException
                 | Some token \<Rightarrow> Inr token)"
proof -
  have "''access_token'' \<in> keys kv \<longleftrightarrow> map_of kv ''access_token'' \<noteq> None"
    by (simp add: map_of_None_keys)
  with assms show ?thesis
    by (auto simp: get_oauth_token_def send_def response_json_def split: option.splits)
qed

subsection \<open>\<^verbatim>\<open>upload_document_from_file\<close> on an existing file\<close>

text \<open>
  Claim C9 says that \<^verbatim>\<open>upload_document_from_file\<close> hands the caller's \<^verbatim>\<open>document_object\<close> to
  \<^verbatim>\<open>upload_document\<close> as the document options. The call is positional and the third
  parameter of \<^verbatim>\<open>upload_document\<close> is \<^verbatim>\<open>folder_id\<close>: for the file \<^verbatim>\<open>tmp/report.txt\<close> and the
  document object \<^verbatim>\<open>{'Number': 'X'}\<close> the one request sent carries the document
  \<^verbatim>\<open>{'FolderId': {'Number': 'X'}}\<close>, the caller's object as the folder id, and no
  \<^verbatim>\<open>Number\<close> option.
\<close>

theorem upload_document_from_file_sends_object_as_folder_id:
  "sent (snd (upload_document_from_file test_env test_client (PathArg [''tmp'', ''report.txt''])
                (Some [(''Number'', JStr ''X'')]) (start [json_response 200 JNull]))) =
     [\<lparr>meth = POST, url = ''https://landax.test/api/v20/Documents/CreateDocument'',
       req_headers = [(''Authorization'', ''Bearer abc'')],
       body = Files [(''document'', Dumped (JObj [(''FolderId'', JObj [(''Number'', JStr ''X'')])])),
                     (''fileData'', FileData ''report.txt'' ''hello'')]\<rparr>]"
  by (simp add: upload_document_from_file_def upload_document_def documents_createdocument_def
        path_name_def Let_def test_defs run_defs)

end
